theory Spec2Isabelle
  imports Complex_Main
begin

section \<open>The employee service of app.py\<close>

text \<open>
  app.py is a FastAPI service with five handlers over one SQL table, \<open>employee\<close>.
  Each handler builds one or two SQL statements and awaits the storage engine. The
  embedding keeps the handlers as they are written and makes the table an explicit
  state: every handler takes the table and returns its response paired with the table
  it leaves behind. An exception is a value on the left of a sum.

  The storage engine is the one the source falls back to, SQLite
  (\<open>DATABASE_URL\<close> defaults to \<open>sqlite:///./mdm_hr.db\<close>). The statements the handlers issue
  are modelled with the meaning SQL gives them there: \<open>INSERT\<close> with an engine-assigned
  integer primary key, \<open>SELECT ... WHERE ... LIMIT\<close>, \<open>UPDATE ... WHERE\<close> and
  \<open>DELETE ... WHERE\<close>, with the \<open>UNIQUE\<close> constraint of the column \<open>employee_no\<close>.
  Rows are kept in the order the engine scans them, which is the order of insertion.

  Two things the driver does to the values that pass through it are part of the model.
  An integer handed to a statement must fit the engine's signed 64-bit integer: the
  driver raises \<open>OverflowError\<close> for any other, before the statement runs. And a
  value read from the \<open>Numeric\<close> column \<open>salary\<close> comes back through the result
  conversion of that column type, which is code of the query library and not of this
  repository: the handlers that read rows take it as the parameter \<open>numeric\<close>.
\<close>

subsection \<open>Data: the pydantic models and the table\<close>

text \<open>
  \<open>date_hired\<close> is a calendar date (year, month, day). \<open>salary\<close> is a finite Python
  float, modelled by the real number it denotes; no handler computes with it. The
  table stores the float it is given.
\<close>

datatype date = Date int int int

record EmployeeIn =
  employee_no :: "string option"
  first_name :: string
  last_name :: string
  email :: "string option"
  phone :: "string option"
  branch :: "string option"
  job_title :: "string option"
  salary :: "real option"
  date_hired :: "date option"

text \<open>\<open>class EmployeeOut(EmployeeIn)\<close> adds the field \<open>id\<close> (written \<open>id'\<close> here).\<close>

record EmployeeOut = EmployeeIn +
  id' :: int

text \<open>A row of the table \<open>employees\<close> has the columns of \<open>EmployeeOut\<close>.\<close>

type_synonym table = "EmployeeOut list"

text \<open>
  What a handler can raise: the \<open>HTTPException\<close> it raises itself, with its status code
  and detail, or an exception of the engine or its driver, which no handler catches:
  \<open>IntegrityError\<close> for a violated constraint, \<open>OverflowError\<close> for an integer
  parameter outside the signed 64-bit range.
\<close>

datatype failure = HTTPException nat string | IntegrityError | OverflowError

text \<open>The body of the delete handler's answer, \<open>{"deleted_id": emp_id}\<close>.\<close>

record Deleted =
  deleted_id :: int

subsection \<open>The storage engine\<close>

text \<open>The integers the driver can hand to the engine.\<close>

definition int64 :: "int \<Rightarrow> bool" where
  "int64 n \<longleftrightarrow> - (2 ^ 63) \<le> n \<and> n < 2 ^ 63"

text \<open>
  \<open>dict(row)\<close> of a row read from the table: the columns as stored, \<open>salary\<close> through
  the result conversion of the \<open>Numeric\<close> column.
\<close>

definition row_result :: "(real \<Rightarrow> real) \<Rightarrow> EmployeeOut \<Rightarrow> EmployeeOut" where
  "row_result numeric r = r\<lparr>salary := map_option numeric (salary r)\<rparr>"

text \<open>
  The result conversion on SQLite, used in the examples below: the column type formats
  the stored float with \<open>"%.10f"\<close>, that is, it rounds it to 10 decimal places, a tie
  to the even neighbour; \<open>sqlite_numeric\<close> is that decimal. The response model turns
  the decimal into the nearest float again. The examples of the claims use
  \<open>sqlite_numeric\<close> only on salaries whose decimal is itself a float (0, 950.5, 1200),
  where that last step changes nothing.
\<close>

definition round_half_even :: "real \<Rightarrow> int" where
  "round_half_even x =
     (let f = \<lfloor>x\<rfloor>; d = x - of_int f
      in if d < 1 / 2 then f
         else if 1 / 2 < d then f + 1
         else if even f then f else f + 1)"

definition sqlite_numeric :: "real \<Rightarrow> real" where
  "sqlite_numeric x = of_int (round_half_even (x * 10 ^ 10)) / 10 ^ 10"

text \<open>\<open>{**emp.dict(), "id": emp_id}\<close>: the fields of the input and an id.\<close>

definition with_id :: "EmployeeIn \<Rightarrow> int \<Rightarrow> EmployeeOut" where
  "with_id emp i = EmployeeIn.extend emp (EmployeeOut.fields i)"

text \<open>
  \<open>.values(**emp.dict())\<close> on an update: every column of the input shape is assigned,
  \<open>None\<close> as \<open>NULL\<close>; the column \<open>id\<close> is not among them.
\<close>

definition set_values :: "EmployeeOut \<Rightarrow> EmployeeIn \<Rightarrow> EmployeeOut" where
  "set_values r emp =
     r\<lparr>employee_no := employee_no emp, first_name := first_name emp,
       last_name := last_name emp, email := email emp, phone := phone emp,
       branch := branch emp, job_title := job_title emp, salary := salary emp,
       date_hired := date_hired emp\<rparr>"

text \<open>
  \<open>unique=True, nullable=True\<close> on \<open>employee_no\<close>: a value that is not \<open>NULL\<close> may be held
  by one row only; any number of rows may hold \<open>NULL\<close>.
\<close>

definition employee_no_taken :: "table \<Rightarrow> string option \<Rightarrow> bool" where
  "employee_no_taken t no =
     (case no of None \<Rightarrow> False | Some s \<Rightarrow> \<exists>r\<in>set t. employee_no r = Some s)"

text \<open>
  The id of an inserted row, \<open>INTEGER PRIMARY KEY\<close> with no value supplied: 1 in an
  empty table, otherwise one more than the largest id in use. (The engine's ids are
  64-bit; the table is taken to stay below that bound.)
\<close>

definition next_rowid :: "table \<Rightarrow> int" where
  "next_rowid t = (case t of [] \<Rightarrow> 1 | r # rs \<Rightarrow> fold max (map id' rs) (id' r) + 1)"

definition execute_insert :: "table \<Rightarrow> EmployeeIn \<Rightarrow> failure + (int \<times> table)" where
  "execute_insert t emp =
     (if employee_no_taken t (employee_no emp) then Inl IntegrityError
      else let i = next_rowid t in Inr (i, t @ [with_id emp i]))"

text \<open>
  \<open>UPDATE employee SET ... WHERE id = emp_id\<close>. An \<open>emp_id\<close> outside the 64-bit
  range is refused by the driver. Otherwise the statement fails, and changes nothing,
  when a row it assigns would hold an \<open>employee_no\<close> that another row holds: the
  \<open>UNIQUE\<close> constraint, as it reads when \<open>id\<close> is a key and the statement assigns one
  row at most. With no row of that id the statement assigns nothing and succeeds.
\<close>

definition execute_update :: "table \<Rightarrow> int \<Rightarrow> EmployeeIn \<Rightarrow> failure + table" where
  "execute_update t emp_id emp =
     (if \<not> int64 emp_id then Inl OverflowError
      else if (\<exists>r\<in>set t. id' r = emp_id) \<and>
         employee_no_taken (filter (\<lambda>r. id' r \<noteq> emp_id) t) (employee_no emp)
      then Inl IntegrityError
      else Inr (map (\<lambda>r. if id' r = emp_id then set_values r emp else r) t))"

text \<open>\<open>DELETE FROM employee WHERE id = emp_id\<close>.\<close>

definition execute_delete :: "table \<Rightarrow> int \<Rightarrow> failure + table" where
  "execute_delete t emp_id =
     (if \<not> int64 emp_id then Inl OverflowError
      else Inr (filter (\<lambda>r. id' r \<noteq> emp_id) t))"

text \<open>\<open>LIMIT n\<close>: the first \<open>n\<close> rows; a negative \<open>n\<close> is no limit in SQLite.\<close>

definition sql_limit :: "int \<Rightarrow> 'a list \<Rightarrow> 'a list" where
  "sql_limit n rows = (if n < 0 then rows else take (nat n) rows)"

text \<open>
  \<open>fetch_all\<close> of \<open>SELECT ... [WHERE branch = b] LIMIT n\<close>: the driver refuses an \<open>n\<close>
  outside the 64-bit range; otherwise the rows selected, each as the driver reads it.
  \<open>fetch_one\<close> of \<open>SELECT ... WHERE id = emp_id\<close>: the driver refuses an \<open>emp_id\<close>
  outside the 64-bit range; otherwise the first matching row as the driver reads it,
  or \<open>None\<close>.
\<close>

definition fetch_all ::
  "(real \<Rightarrow> real) \<Rightarrow> table \<Rightarrow> (EmployeeOut \<Rightarrow> bool) option \<Rightarrow> int \<Rightarrow>
     failure + EmployeeOut list" where
  "fetch_all numeric t wh n =
     (if \<not> int64 n then Inl OverflowError
      else Inr (map (row_result numeric)
                 (sql_limit n (case wh of None \<Rightarrow> t | Some p \<Rightarrow> filter p t))))"

definition fetch_one ::
  "(real \<Rightarrow> real) \<Rightarrow> table \<Rightarrow> int \<Rightarrow> failure + EmployeeOut option" where
  "fetch_one numeric t emp_id =
     (if \<not> int64 emp_id then Inl OverflowError
      else Inr (case filter (\<lambda>r. id' r = emp_id) t of
                  [] \<Rightarrow> None
                | r # _ \<Rightarrow> Some (row_result numeric r)))"

subsection \<open>The handlers\<close>

definition create_employee :: "table \<Rightarrow> EmployeeIn \<Rightarrow> (failure + EmployeeOut) \<times> table" where
  "create_employee t emp =
     (case execute_insert t emp of
        Inl e \<Rightarrow> (Inl e, t)
      | Inr (emp_id, t') \<Rightarrow> (Inr (with_id emp emp_id), t'))"

text \<open>
  \<open>list_employees(branch: Optional[str] = None, limit: int = 100)\<close>. An argument the
  request leaves out is \<open>None\<close> here. \<open>if branch:\<close> is false for \<open>None\<close> and for the
  empty string. A row matches \<open>employees.c.branch == branch\<close> when its branch is that
  string; a \<open>NULL\<close> branch matches nothing.
\<close>

definition list_employees ::
  "(real \<Rightarrow> real) \<Rightarrow> table \<Rightarrow> string option \<Rightarrow> int option \<Rightarrow>
     (failure + EmployeeOut list) \<times> table" where
  "list_employees numeric t branch_arg limit_arg =
     (let limit = (case limit_arg of None \<Rightarrow> 100 | Some n \<Rightarrow> n);
          wh = (case branch_arg of
                  None \<Rightarrow> None
                | Some b \<Rightarrow> if b = [] then None else Some (\<lambda>r. branch r = Some b))
      in (fetch_all numeric t wh limit, t))"

definition get_employee ::
  "(real \<Rightarrow> real) \<Rightarrow> table \<Rightarrow> int \<Rightarrow> (failure + EmployeeOut) \<times> table" where
  "get_employee numeric t emp_id =
     (case fetch_one numeric t emp_id of
        Inl e \<Rightarrow> (Inl e, t)
      | Inr None \<Rightarrow> (Inl (HTTPException 404 ''Employee not found''), t)
      | Inr (Some row) \<Rightarrow> (Inr row, t))"

definition update_employee ::
  "(real \<Rightarrow> real) \<Rightarrow> table \<Rightarrow> int \<Rightarrow> EmployeeIn \<Rightarrow> (failure + EmployeeOut) \<times> table" where
  "update_employee numeric t emp_id emp =
     (case execute_update t emp_id emp of
        Inl e \<Rightarrow> (Inl e, t)
      | Inr t' \<Rightarrow>
          (case fetch_one numeric t' emp_id of
             Inl e \<Rightarrow> (Inl e, t')
           | Inr None \<Rightarrow> (Inl (HTTPException 404 ''Employee not found after update''), t')
           | Inr (Some row) \<Rightarrow> (Inr row, t')))"

definition delete_employee :: "table \<Rightarrow> int \<Rightarrow> (failure + Deleted) \<times> table" where
  "delete_employee t emp_id =
     (case execute_delete t emp_id of
        Inl e \<Rightarrow> (Inl e, t)
      | Inr t' \<Rightarrow> (Inr \<lparr>deleted_id = emp_id\<rparr>, t'))"

text \<open>
  The spec sorts failures into those meant for the client (a rejected input, not-found:
  a status the handler chooses, in the 4xx range) and storage-engine errors, which
  "propagate as generic server-side failures". \<open>client_facing\<close> says that a response is
  a failure of the first sort.
\<close>

definition client_facing :: "failure + 'a \<Rightarrow> bool" where
  "client_facing resp =
     (case resp of
        Inl (HTTPException code detail) \<Rightarrow> 400 \<le> code \<and> code < 500
      | Inl IntegrityError \<Rightarrow> False
      | Inl OverflowError \<Rightarrow> False
      | Inr _ \<Rightarrow> False)"

subsection \<open>The invariant of the table\<close>

text \<open>
  What the schema and the engine keep true of every table the handlers can reach from
  the empty one: \<open>id\<close> is a primary key, the engine's ids are positive, and an
  \<open>employee_no\<close> that is not \<open>NULL\<close> belongs to one row.
\<close>

definition wf_table :: "table \<Rightarrow> bool" where
  "wf_table t \<longleftrightarrow>
     distinct (map id' t) \<and> (\<forall>r\<in>set t. 0 < id' r) \<and>
     (\<forall>r\<in>set t. \<forall>r'\<in>set t.
        employee_no r \<noteq> None \<and> employee_no r = employee_no r' \<longrightarrow> id' r = id' r')"

subsection \<open>Example records and tables\<close>

definition ana :: EmployeeIn where
  "ana = \<lparr>employee_no = Some ''E1'', first_name = ''Ana'', last_name = ''Cruz'',
          email = None, phone = None, branch = Some ''North'', job_title = None,
          salary = None, date_hired = None\<rparr>"

definition ben :: EmployeeIn where
  "ben = \<lparr>employee_no = Some ''E2'', first_name = ''Ben'', last_name = ''Diaz'',
          email = Some ''ben@example.org'', phone = None, branch = Some ''South'',
          job_title = Some ''Clerk'', salary = Some 1200, date_hired = Some (Date 2020 2 29)\<rparr>"

definition required_only :: EmployeeIn where
  "required_only = \<lparr>employee_no = None, first_name = ''Cy'', last_name = ''Eno'',
          email = None, phone = None, branch = None, job_title = None,
          salary = None, date_hired = None\<rparr>"

definition eve :: EmployeeIn where
  "eve = \<lparr>employee_no = None, first_name = ''Eve'', last_name = ''Faro'',
          email = None, phone = Some ''555-0100'', branch = Some ''North'', job_title = None,
          salary = Some 950.5, date_hired = None\<rparr>"

definition tiny :: EmployeeIn where
  "tiny = \<lparr>employee_no = None, first_name = ''Tio'', last_name = ''Ng'',
          email = None, phone = None, branch = Some ''South'', job_title = None,
          salary = Some (1 / 2 ^ 40), date_hired = None\<rparr>"

definition two_rows :: table where
  "two_rows = [with_id ana 1, with_id ben 2]"

subsection \<open>Facts about the storage engine\<close>

lemmas record_defs = with_id_def set_values_def EmployeeIn.defs EmployeeOut.defs

lemma id_with_id: "id' (with_id emp i) = i"
  by (simp add: record_defs)

lemma truncate_with_id: "EmployeeIn.truncate (with_id emp i) = emp"
  by (simp add: record_defs)

lemma employee_no_with_id: "employee_no (with_id emp i) = employee_no emp"
  by (simp add: record_defs)

lemma branch_with_id: "branch (with_id emp i) = branch emp"
  by (simp add: record_defs)

lemma set_values_with_id: "set_values r emp = with_id emp (id' r)"
  by (simp add: record_defs)

lemma fold_max_ge: "(a::int) \<le> fold max xs a"
  by (induction xs arbitrary: a) (auto intro: order_trans [OF max.cobounded2])

lemma fold_max_mem: "x \<in> set xs \<Longrightarrow> (x::int) \<le> fold max xs a"
proof (induction xs arbitrary: a)
  case Nil
  then show ?case by simp
next
  case (Cons y ys)
  show ?case
  proof (cases "x = y")
    case True
    have "y \<le> max y a" by simp
    also have "\<dots> \<le> fold max ys (max y a)" by (rule fold_max_ge)
    finally show ?thesis using True by simp
  next
    case False
    with Cons.prems have "x \<in> set ys" by simp
    then show ?thesis using Cons.IH by simp
  qed
qed

lemma next_rowid_fresh: "r \<in> set t \<Longrightarrow> id' r < next_rowid t"
proof (cases t)
  case Nil
  assume "r \<in> set t"
  with Nil show ?thesis by simp
next
  case (Cons r0 rs)
  assume mem: "r \<in> set t"
  have "id' r \<le> fold max (map id' rs) (id' r0)"
  proof (cases "r = r0")
    case True
    then show ?thesis by (simp add: fold_max_ge)
  next
    case False
    with mem Cons have "id' r \<in> set (map id' rs)" by simp
    then show ?thesis by (rule fold_max_mem)
  qed
  then show ?thesis by (simp add: next_rowid_def Cons)
qed

lemma next_rowid_positive: "(\<forall>r\<in>set t. 0 < id' r) \<Longrightarrow> 0 < next_rowid t"
proof (cases t)
  case Nil
  then show ?thesis by (simp add: next_rowid_def)
next
  case (Cons r0 rs)
  assume pos: "\<forall>r\<in>set t. 0 < id' r"
  have "r0 \<in> set t" using Cons by simp
  then have "id' r0 < next_rowid t" by (rule next_rowid_fresh)
  moreover have "0 < id' r0" using pos Cons by simp
  ultimately show ?thesis by simp
qed

lemma id_row_result: "id' (row_result numeric r) = id' r"
  by (simp add: row_result_def)

lemma branch_row_result: "branch (row_result numeric r) = branch r"
  by (simp add: row_result_def)

lemma row_result_fixed:
  "(\<forall>s. salary r = Some s \<longrightarrow> numeric s = s) \<Longrightarrow> row_result numeric r = r"
  by (cases "salary r") (simp_all add: row_result_def)

lemma first_is_find: "(case filter P xs of [] \<Rightarrow> None | r # _ \<Rightarrow> Some r) = find P xs"
  by (induction xs) simp_all

lemma fetch_one_find:
  "fetch_one numeric t X =
     (if int64 X then Inr (map_option (row_result numeric) (find (\<lambda>r. id' r = X) t))
      else Inl OverflowError)"
proof -
  have "(case filter (\<lambda>r. id' r = X) t of [] \<Rightarrow> None | r # _ \<Rightarrow> Some (row_result numeric r)) =
        map_option (row_result numeric) (case filter (\<lambda>r. id' r = X) t of [] \<Rightarrow> None | r # _ \<Rightarrow> Some r)"
    by (simp split: list.splits)
  then show ?thesis by (simp add: fetch_one_def first_is_find)
qed

lemma find_id_None: "find (\<lambda>r. id' r = X) t = None \<longleftrightarrow> (\<forall>r\<in>set t. id' r \<noteq> X)"
  by (auto simp: find_None_iff)

lemma find_id_Some: "find (\<lambda>r. id' r = X) t = Some r \<Longrightarrow> r \<in> set t \<and> id' r = X"
  by (auto simp: find_Some_iff)

lemma find_id_distinct:
  assumes "distinct (map id' t)" and "r \<in> set t"
  shows "find (\<lambda>x. id' x = id' r) t = Some r"
proof (cases "find (\<lambda>x. id' x = id' r) t")
  case None
  then have "\<forall>x\<in>set t. id' x \<noteq> id' r" by (simp add: find_id_None)
  with assms(2) show ?thesis by blast
next
  case (Some r')
  from find_id_Some [OF Some] have "r' \<in> set t" and "id' r' = id' r" by simp_all
  with assms have "r' = r" by (meson distinct_map inj_onD)
  with Some show ?thesis by simp
qed

subsection \<open>The handlers keep the invariant\<close>

lemma wf_table_empty: "wf_table []"
  by (simp add: wf_table_def)

lemma id_set_values: "id' (set_values r emp) = id' r"
  by (simp add: record_defs)

lemma employee_no_set_values: "employee_no (set_values r emp) = employee_no emp"
  by (simp add: record_defs)

lemma wf_table_insert:
  assumes "wf_table t" and "execute_insert t emp = Inr (i, t')"
  shows "wf_table t'"
proof -
  from assms(2) have nt: "\<not> employee_no_taken t (employee_no emp)"
    and i: "i = next_rowid t" and t': "t' = t @ [with_id emp i]"
    by (auto simp: execute_insert_def Let_def split: if_splits)
  have fresh: "i \<notin> id' ` set t" using next_rowid_fresh [of _ t] i by fastforce
  have pos: "0 < i" using assms(1) i next_rowid_positive [of t] by (simp add: wf_table_def)
  have d1: "distinct (map id' t')" using assms(1) fresh t' by (simp add: wf_table_def id_with_id)
  have d2: "\<forall>r\<in>set t'. 0 < id' r" using assms(1) pos t' by (auto simp: wf_table_def id_with_id)
  have nt': "\<And>r. r \<in> set t \<Longrightarrow> employee_no r \<noteq> None \<Longrightarrow> employee_no r \<noteq> employee_no emp"
    using nt by (auto simp: employee_no_taken_def split: option.splits)
  have d3: "\<forall>r\<in>set t'. \<forall>r'\<in>set t'.
        employee_no r \<noteq> None \<and> employee_no r = employee_no r' \<longrightarrow> id' r = id' r'"
    using assms(1) nt' unfolding t' wf_table_def
    by (auto simp: employee_no_with_id id_with_id) metis+
  show ?thesis using d1 d2 d3 by (simp add: wf_table_def)
qed

lemma wf_table_filter: "wf_table t \<Longrightarrow> wf_table (filter P t)"
  unfolding wf_table_def by (auto simp: distinct_map_filter)

lemma wf_table_delete: "wf_table t \<Longrightarrow> execute_delete t X = Inr t' \<Longrightarrow> wf_table t'"
  by (auto simp: execute_delete_def wf_table_filter split: if_splits)

lemma map_id_update: "map id' (map (\<lambda>r. if id' r = X then set_values r emp else r) t) = map id' t"
  by (induction t) (auto simp: id_set_values)

lemma wf_table_update:
  assumes "wf_table t" and "execute_update t X emp = Inr t'"
  shows "wf_table t'"
proof -
  from assms(2) have t': "t' = map (\<lambda>r. if id' r = X then set_values r emp else r) t"
    and nc: "\<not> ((\<exists>r\<in>set t. id' r = X) \<and>
         employee_no_taken (filter (\<lambda>r. id' r \<noteq> X) t) (employee_no emp))"
    by (auto simp: execute_update_def split: if_splits)
  have ids: "map id' t' = map id' t" unfolding t' by (rule map_id_update)
  have d1: "distinct (map id' t')" using assms(1) unfolding ids by (simp add: wf_table_def)
  have d2: "\<forall>r\<in>set t'. 0 < id' r"
  proof
    fix r assume "r \<in> set t'"
    then obtain r0 where "r0 \<in> set t" and "id' r = id' r0"
      by (auto simp: t' id_set_values split: if_splits)
    then show "0 < id' r" using assms(1) by (simp add: wf_table_def)
  qed
  have nc': "employee_no b \<noteq> employee_no emp"
    if "a \<in> set t" "id' a = X" "b \<in> set t" "id' b \<noteq> X" "employee_no emp \<noteq> None" for a b
  proof
    assume eq: "employee_no b = employee_no emp"
    from that(5) obtain s where s: "employee_no emp = Some s" by auto
    have "b \<in> set (filter (\<lambda>r. id' r \<noteq> X) t)" using that(3,4) by simp
    then have "employee_no_taken (filter (\<lambda>r. id' r \<noteq> X) t) (employee_no emp)"
      unfolding employee_no_taken_def s using eq s by (simp del: set_filter) blast
    then show False using nc that(1,2) by blast
  qed
  have d3: "id' r = id' r'" if "r \<in> set t'" "r' \<in> set t'" "employee_no r \<noteq> None"
      "employee_no r = employee_no r'" for r r'
  proof -
    from that(1) obtain r0 where r0: "r0 \<in> set t" "r = (if id' r0 = X then set_values r0 emp else r0)"
      unfolding t' by auto
    from that(2) obtain r1 where r1: "r1 \<in> set t" "r' = (if id' r1 = X then set_values r1 emp else r1)"
      unfolding t' by auto
    show ?thesis
    proof (cases "id' r0 = X")
      case True
      note r0X = True
      show ?thesis
      proof (cases "id' r1 = X")
        case True
        with r0X r0 r1 show ?thesis by (simp add: id_set_values)
      next
        case False
        have "employee_no r = employee_no emp" using r0X r0 by (simp add: employee_no_set_values)
        moreover have "employee_no r' = employee_no r1" using False r1 by simp
        ultimately have "employee_no r1 = employee_no emp" "employee_no emp \<noteq> None"
          using that(3,4) by simp_all
        with nc' [OF r0(1) r0X r1(1) False] show ?thesis by simp
      qed
    next
      case False
      note r0X = False
      show ?thesis
      proof (cases "id' r1 = X")
        case True
        have "employee_no r' = employee_no emp" using True r1 by (simp add: employee_no_set_values)
        moreover have "employee_no r = employee_no r0" using r0X r0 by simp
        ultimately have "employee_no r0 = employee_no emp" "employee_no emp \<noteq> None"
          using that(3,4) by simp_all
        with nc' [OF r1(1) True r0(1) r0X] show ?thesis by simp
      next
        case False
        have "r = r0" "r' = r1" using r0X False r0 r1 by simp_all
        then show ?thesis using r0(1) r1(1) that(3,4) assms(1) unfolding wf_table_def by blast
      qed
    qed
  qed
  show ?thesis using d1 d2 d3 unfolding wf_table_def by blast
qed

lemma handlers_keep_wf_table:
  assumes "wf_table t"
  shows "wf_table (snd (create_employee t emp))"
    and "wf_table (snd (list_employees numeric t b larg))"
    and "wf_table (snd (get_employee numeric t X))"
    and "wf_table (snd (update_employee numeric t X emp))"
    and "wf_table (snd (delete_employee t X))"
proof -
  show "wf_table (snd (create_employee t emp))"
    using assms wf_table_insert [OF assms]
    by (auto simp: create_employee_def split: sum.splits)
  show "wf_table (snd (list_employees numeric t b larg))"
    using assms by (simp add: list_employees_def)
  show "wf_table (snd (get_employee numeric t X))"
    using assms by (simp add: get_employee_def split: sum.splits option.splits)
  show "wf_table (snd (update_employee numeric t X emp))"
    using assms wf_table_update [OF assms]
    by (auto simp: update_employee_def split: sum.splits option.splits)
  show "wf_table (snd (delete_employee t X))"
    using assms wf_table_delete [OF assms]
    by (auto simp: delete_employee_def split: sum.splits)
qed

lemmas example_defs = ana_def ben_def required_only_def eve_def tiny_def two_rows_def

lemma sqlite_numeric_examples:
  "sqlite_numeric 1200 = 1200" "sqlite_numeric 950.5 = 950.5" "sqlite_numeric (1 / 2 ^ 40) = 0"
  "sqlite_numeric (1 / 2 ^ 11) = 4882812 / 10 ^ 10"
  by (simp_all add: sqlite_numeric_def round_half_even_def)

lemma int64_examples: "int64 1" "int64 2" "int64 3" "int64 7" "int64 100" "int64 (- 1)"
  "\<not> int64 9223372036854775808"
  by (simp_all add: int64_def)

subsection \<open>The examples, evaluated\<close>

lemma create_example:
  "create_employee [with_id ana 1] tiny = (Inr (with_id tiny 2), [with_id ana 1, with_id tiny 2])"
  "create_employee [with_id ana 1] ben = (Inr (with_id ben 2), [with_id ana 1, with_id ben 2])"
  by (simp_all add: create_employee_def execute_insert_def employee_no_taken_def next_rowid_def
      example_defs record_defs)

lemma row_result_examples:
  "row_result sqlite_numeric (with_id ana i) = with_id ana i"
  "row_result sqlite_numeric (with_id ben i) = with_id ben i"
  "row_result sqlite_numeric (with_id eve i) = with_id eve i"
  "row_result sqlite_numeric (with_id required_only i) = with_id required_only i"
  "row_result sqlite_numeric (with_id tiny i) = with_id (tiny\<lparr>salary := Some 0\<rparr>) i"
  by (simp_all add: row_result_def example_defs record_defs sqlite_numeric_def round_half_even_def)

lemma branch_examples:
  "branch (with_id ana i) = Some ''North''" "branch (with_id ben i) = Some ''South''"
  "branch (with_id eve i) = Some ''North''"
  by (simp_all add: branch_with_id ana_def ben_def eve_def)

lemma list_examples:
  "fst (list_employees sqlite_numeric two_rows (Some []) None) = Inr [with_id ana 1, with_id ben 2]"
  "fst (list_employees sqlite_numeric two_rows (Some ''North'') (Some (- 1))) = Inr [with_id ana 1]"
  "fst (list_employees sqlite_numeric two_rows (Some ''North'') (Some 9223372036854775808)) = Inl OverflowError"
  by (simp_all add: list_employees_def fetch_all_def sql_limit_def int64_def two_rows_def
      row_result_examples branch_examples)

section \<open>The claims\<close>

subsection \<open>C1: creating a second record with an employee_no in use\<close>

text \<open>
  C1, as stated: when a row holds the \<open>employee_no\<close> \<open>S\<close>, creating a record with the same
  \<open>employee_no\<close> fails, and the failure reaches the caller as a client-facing
  conflict/error. The create fails and adds no row, but the failure is the engine's
  \<open>IntegrityError\<close>, which \<open>create_employee\<close> does not catch: it is not one of the
  failures the handlers raise for the client.
\<close>

theorem create_duplicate_not_client_facing:
  "fst (create_employee [with_id ana 1] ana) = Inl IntegrityError \<and>
   \<not> client_facing (fst (create_employee [with_id ana 1] ana))"
  by (simp add: create_employee_def execute_insert_def employee_no_taken_def client_facing_def
      ana_def record_defs)

text \<open>
  C1, amended: when a row holds the \<open>employee_no\<close> \<open>S\<close>, creating a record whose
  \<open>employee_no\<close> is \<open>S\<close> fails with the engine's uncaught \<open>IntegrityError\<close>, which is not a
  client-facing failure, and the table is left as it was: no row is added.
\<close>

theorem create_duplicate_employee_no:
  assumes "\<exists>r\<in>set t. employee_no r = Some s" and "employee_no emp = Some s"
  shows "create_employee t emp = (Inl IntegrityError, t) \<and>
         \<not> client_facing (fst (create_employee t emp))"
  using assms
  by (simp add: create_employee_def execute_insert_def employee_no_taken_def client_facing_def)

theorem create_duplicate_employee_no_witness:
  "create_employee [with_id ana 1] ana = (Inl IntegrityError, [with_id ana 1]) \<and>
   \<not> client_facing (fst (create_employee [with_id ana 1] ana))"
proof -
  have h1: "\<exists>r\<in>set [with_id ana 1]. employee_no r = Some ''E1''"
    by (simp add: ana_def record_defs)
  have h2: "employee_no ana = Some ''E1''" by (simp add: ana_def)
  show ?thesis using create_duplicate_employee_no [OF h1 h2] .
qed

subsection \<open>C2: create, then get by id\<close>

lemma create_employee_Inr:
  assumes "fst (create_employee t emp) = Inr out"
  shows "out = with_id emp (next_rowid t) \<and> snd (create_employee t emp) = t @ [out]"
  using assms
  by (auto simp: create_employee_def execute_insert_def Let_def split: if_splits)

lemma find_append_fresh:
  assumes "\<forall>r\<in>set t. \<not> p r" and "p x"
  shows "find p (t @ [x]) = Some x"
  using assms by (induction t) simp_all

text \<open>
  C2, as stated: the record that get-by-id returns for the id create returned is
  identical to the one create returned. \<open>create_employee\<close> answers with the float of
  the request, \<open>get_employee\<close> with the float read back from the \<open>Numeric\<close> column. On
  SQLite the salary \<open>2 ^ -40\<close> is created as such and read back as 0.
\<close>

theorem create_then_get_salary_counterexample:
  "fst (create_employee [with_id ana 1] tiny) = Inr (with_id tiny 2) \<and>
   fst (get_employee sqlite_numeric (snd (create_employee [with_id ana 1] tiny)) 2) =
     Inr (with_id (tiny\<lparr>salary := Some 0\<rparr>) 2) \<and>
   salary (with_id tiny 2) = Some (1 / 2 ^ 40) \<and>
   with_id (tiny\<lparr>salary := Some 0\<rparr>) 2 \<noteq> with_id tiny 2"
proof -
  have g: "fst (get_employee sqlite_numeric [with_id ana 1, with_id tiny 2] 2) =
     Inr (with_id (tiny\<lparr>salary := Some 0\<rparr>) 2)"
    by (simp add: get_employee_def fetch_one_find int64_examples id_with_id row_result_examples)
  have s: "salary (with_id tiny 2) = Some (1 / 2 ^ 40)" by (simp add: tiny_def record_defs)
  have n: "with_id (tiny\<lparr>salary := Some 0\<rparr>) 2 \<noteq> with_id tiny 2"
    by (simp add: tiny_def record_defs)
  show ?thesis using g s n by (simp add: create_example)
qed

text \<open>
  C2, amended: when \<open>create_employee\<close> returns the record \<open>out\<close>, with an id in the
  64-bit range as the engine's ids are, \<open>get_employee\<close> on the table it leaves, with
  the id of \<open>out\<close>, returns \<open>out\<close> as the driver reads it: the same id and the same
  value in every field but \<open>salary\<close>, which has passed through the result conversion
  of the \<open>Numeric\<close> column. It returns \<open>out\<close> itself when the salary is null or is a
  value the conversion leaves as it is.
\<close>

theorem create_then_get:
  assumes "fst (create_employee t emp) = Inr out" and "int64 (id' out)"
  shows "fst (get_employee numeric (snd (create_employee t emp)) (id' out)) =
           Inr (row_result numeric out) \<and>
         row_result numeric out = out\<lparr>salary := map_option numeric (salary out)\<rparr> \<and>
         ((\<forall>s. salary out = Some s \<longrightarrow> numeric s = s) \<longrightarrow>
            fst (get_employee numeric (snd (create_employee t emp)) (id' out)) = Inr out)"
proof -
  from create_employee_Inr [OF assms(1)]
  have out: "out = with_id emp (next_rowid t)" and t': "snd (create_employee t emp) = t @ [out]"
    by simp_all
  have idout: "id' out = next_rowid t" by (simp add: out id_with_id)
  have "\<forall>r\<in>set t. \<not> id' r = id' out"
    using next_rowid_fresh [of _ t] idout by fastforce
  then have "find (\<lambda>r. id' r = id' out) (t @ [out]) = Some out"
    by (rule find_append_fresh) simp
  then have g: "fst (get_employee numeric (snd (create_employee t emp)) (id' out)) =
           Inr (row_result numeric out)"
    using assms(2) by (simp add: get_employee_def fetch_one_find t')
  have r: "row_result numeric out = out\<lparr>salary := map_option numeric (salary out)\<rparr>"
    by (simp add: row_result_def)
  show ?thesis using g r row_result_fixed [of out numeric] by simp
qed

theorem create_then_get_witness:
  "fst (create_employee [with_id ana 1] ben) = Inr (with_id ben 2) \<and> int64 2 \<and>
   fst (get_employee sqlite_numeric (snd (create_employee [with_id ana 1] ben)) 2) =
     Inr (with_id ben 2)"
proof -
  have h: "fst (create_employee [with_id ana 1] ben) = Inr (with_id ben 2)"
    by (simp add: create_example)
  have i: "int64 (id' (with_id ben 2))" by (simp add: id_with_id int64_examples)
  have f: "\<forall>s. salary (with_id ben 2) = Some s \<longrightarrow> sqlite_numeric s = s"
    by (simp add: ben_def record_defs sqlite_numeric_def round_half_even_def)
  from create_then_get [OF h i, of sqlite_numeric] f
  have "fst (get_employee sqlite_numeric (snd (create_employee [with_id ana 1] ben))
          (id' (with_id ben 2))) = Inr (with_id ben 2)"
    by blast
  then show ?thesis using h by (simp add: id_with_id int64_examples)
qed

subsection \<open>C3: update of a row that exists\<close>

text \<open>
  C3, as stated: for every id \<open>X\<close> of a row and every valid input record \<open>R\<close>, the update
  replaces the fields of row \<open>X\<close> by those of \<open>R\<close> and returns the updated record. Two
  inputs break it. The column \<open>employee_no\<close> is unique, so an \<open>R\<close> that carries the
  \<open>employee_no\<close> of another row makes the \<open>UPDATE\<close> fail: here row 2 is given the
  \<open>employee_no\<close> of row 1. And the record returned is read back from the table, its
  salary through the \<open>Numeric\<close> column: the salary \<open>2 ^ -40\<close> is returned as 0.
\<close>

theorem update_counterexample:
  "update_employee sqlite_numeric two_rows 2 ana = (Inl IntegrityError, two_rows) \<and>
   fst (update_employee sqlite_numeric two_rows 2 tiny) = Inr (with_id (tiny\<lparr>salary := Some 0\<rparr>) 2) \<and>
   salary tiny = Some (1 / 2 ^ 40)"
proof -
  have a: "update_employee sqlite_numeric two_rows 2 ana = (Inl IntegrityError, two_rows)"
    by (simp add: update_employee_def execute_update_def employee_no_taken_def int64_examples
        two_rows_def ana_def ben_def record_defs)
  have e: "execute_update two_rows 2 tiny = Inr [with_id ana 1, with_id tiny 2]"
    by (simp add: execute_update_def employee_no_taken_def int64_examples
        two_rows_def ana_def ben_def tiny_def record_defs)
  have b: "fst (update_employee sqlite_numeric two_rows 2 tiny) =
      Inr (with_id (tiny\<lparr>salary := Some 0\<rparr>) 2)"
    by (simp add: update_employee_def e fetch_one_find int64_examples id_with_id row_result_examples)
  show ?thesis using a b by (simp add: tiny_def)
qed

lemma find_update:
  assumes "\<exists>r\<in>set t. id' r = X"
  shows "find (\<lambda>r. id' r = X) (map (\<lambda>r. if id' r = X then with_id emp X else r) t)
         = Some (with_id emp X)"
  using assms
proof (induction t)
  case Nil
  then show ?case by simp
next
  case (Cons a t)
  show ?case
  proof (cases "id' a = X")
    case True
    then show ?thesis by (simp add: id_with_id)
  next
    case False
    with Cons.prems have "\<exists>r\<in>set t. id' r = X" by simp
    from Cons.IH [OF this] False show ?thesis by simp
  qed
qed

lemma update_map_eq:
  "map (\<lambda>r. if id' r = X then set_values r emp else r) t =
   map (\<lambda>r. if id' r = X then with_id emp X else r) t"
  by (rule map_cong) (auto simp: set_values_with_id)

text \<open>
  C3, amended: for every id \<open>X\<close> of a row, in the 64-bit range as the engine's ids are,
  and every input record \<open>R\<close> whose \<open>employee_no\<close> is null or is held by no row other
  than \<open>X\<close>, the update replaces every field of the input shape in row \<open>X\<close> by the value
  \<open>R\<close> has, null where \<open>R\<close> has none, leaves the id \<open>X\<close>, and returns the row as read
  back after the write: the record with the id \<open>X\<close> and the fields of \<open>R\<close>, the salary
  through the result conversion of the \<open>Numeric\<close> column.
\<close>

theorem update_replaces_row:
  assumes "\<exists>r\<in>set t. id' r = X" and "int64 X"
    and "employee_no emp = None \<or> (\<forall>r\<in>set t. employee_no r = employee_no emp \<longrightarrow> id' r = X)"
  shows "update_employee numeric t X emp =
           (Inr (row_result numeric (with_id emp X)),
            map (\<lambda>r. if id' r = X then with_id emp X else r) t) \<and>
         EmployeeIn.truncate (with_id emp X) = emp \<and> id' (with_id emp X) = X \<and>
         row_result numeric (with_id emp X) =
           (with_id emp X)\<lparr>salary := map_option numeric (salary emp)\<rparr>"
proof -
  have "\<not> employee_no_taken (filter (\<lambda>r. id' r \<noteq> X) t) (employee_no emp)"
    using assms(3) by (auto simp: employee_no_taken_def split: option.splits)
  then have "execute_update t X emp = Inr (map (\<lambda>r. if id' r = X then with_id emp X else r) t)"
    using assms(2) by (simp add: execute_update_def update_map_eq)
  then have u: "update_employee numeric t X emp =
           (Inr (row_result numeric (with_id emp X)),
            map (\<lambda>r. if id' r = X then with_id emp X else r) t)"
    using find_update [OF assms(1), of emp] assms(2)
    by (simp add: update_employee_def fetch_one_find)
  have s: "salary (with_id emp X) = salary emp" by (simp add: record_defs)
  show ?thesis using u by (simp add: id_with_id truncate_with_id row_result_def s)
qed

theorem update_replaces_row_witness:
  "update_employee sqlite_numeric two_rows 2 eve =
     (Inr (with_id eve 2), [with_id ana 1, with_id eve 2]) \<and>
   EmployeeIn.truncate (with_id eve 2) = eve \<and> id' (with_id eve 2) = 2"
proof -
  have h1: "\<exists>r\<in>set two_rows. id' r = 2" by (simp add: two_rows_def id_with_id)
  have h2: "int64 2" by (rule int64_examples)
  have h3: "employee_no eve = None \<or>
      (\<forall>r\<in>set two_rows. employee_no r = employee_no eve \<longrightarrow> id' r = 2)"
    by (simp add: eve_def)
  have m: "map (\<lambda>r. if id' r = 2 then with_id eve 2 else r) two_rows = [with_id ana 1, with_id eve 2]"
    by (simp add: two_rows_def id_with_id)
  from update_replaces_row [OF h1 h2 h3, of sqlite_numeric]
  have "update_employee sqlite_numeric two_rows 2 eve =
           (Inr (row_result sqlite_numeric (with_id eve 2)),
            map (\<lambda>r. if id' r = 2 then with_id eve 2 else r) two_rows)"
    and "EmployeeIn.truncate (with_id eve 2) = eve" and "id' (with_id eve 2) = 2"
    by blast+
  then show ?thesis by (simp add: m row_result_examples)
qed

subsection \<open>C4: update of an id that no row has\<close>

text \<open>
  C4, as stated: for every id \<open>X\<close> that no row has, the update signals not-found. The
  handler takes any integer as \<open>emp_id\<close>; for one outside the 64-bit range the driver
  raises \<open>OverflowError\<close> at the \<open>UPDATE\<close>, and the handler never reaches its 404.
\<close>

theorem update_missing_id_overflow_example:
  "map id' two_rows = [1, 2] \<and>
   update_employee sqlite_numeric two_rows 9223372036854775808 ana = (Inl OverflowError, two_rows)"
  by (simp add: update_employee_def execute_update_def int64_examples two_rows_def id_with_id)

text \<open>
  C4, amended: when no row has the id \<open>X\<close>, \<open>update_employee\<close> leaves the table as it
  was, so no row is created; it raises the 404 \<open>HTTPException\<close> when \<open>X\<close> is in the
  signed 64-bit range, and fails with the driver's uncaught \<open>OverflowError\<close> otherwise.
\<close>

theorem update_missing_id:
  assumes "\<forall>r\<in>set t. id' r \<noteq> X"
  shows "update_employee numeric t X emp =
           (if int64 X then Inl (HTTPException 404 ''Employee not found after update'')
            else Inl OverflowError, t)"
proof (cases "int64 X")
  case True
  have m: "map (\<lambda>r. if id' r = X then set_values r emp else r) t = t"
    using assms by (simp add: map_idI)
  have "execute_update t X emp = Inr t"
    using assms True by (simp add: execute_update_def m)
  moreover have "find (\<lambda>r. id' r = X) t = None"
    using assms by (simp add: find_id_None)
  ultimately show ?thesis using True by (simp add: update_employee_def fetch_one_find)
next
  case False
  then show ?thesis by (simp add: update_employee_def execute_update_def)
qed

theorem update_missing_id_witness:
  "update_employee sqlite_numeric two_rows 7 ana =
     (Inl (HTTPException 404 ''Employee not found after update''), two_rows) \<and>
   update_employee sqlite_numeric two_rows (- 9223372036854775809) ana =
     (Inl OverflowError, two_rows)"
proof -
  have h: "\<forall>r\<in>set two_rows. id' r \<noteq> 7" by (simp add: two_rows_def id_with_id)
  have h': "\<forall>r\<in>set two_rows. id' r \<noteq> - 9223372036854775809" by (simp add: two_rows_def id_with_id)
  have n: "\<not> int64 (- 9223372036854775809)" by (simp add: int64_def)
  show ?thesis
    using update_missing_id [OF h, of sqlite_numeric ana] update_missing_id [OF h', of sqlite_numeric ana] n
    by (simp add: int64_examples)
qed

subsection \<open>C5: get by id\<close>

text \<open>
  C5, as stated: get-by-id signals not-found exactly when no row has the id \<open>X\<close>. For
  an \<open>X\<close> outside the 64-bit range no row has the id, and the failure is the driver's
  \<open>OverflowError\<close>, not the 404.
\<close>

theorem get_overflow_example:
  "map id' two_rows = [1, 2] \<and>
   get_employee sqlite_numeric two_rows 9223372036854775808 = (Inl OverflowError, two_rows)"
  by (simp add: get_employee_def fetch_one_def int64_examples two_rows_def id_with_id)

text \<open>
  C5, amended: \<open>get_employee\<close> never changes the table. For an id \<open>X\<close> in the signed
  64-bit range, when a row has the id \<open>X\<close> it returns a row of the table with that id
  as the driver reads it (the row, when \<open>id\<close> is a key), and it raises the 404
  \<open>HTTPException\<close>, and fails at all, exactly when no row has the id \<open>X\<close>. For an \<open>X\<close>
  outside that range it fails with the driver's uncaught \<open>OverflowError\<close>.
\<close>

theorem get_employee_spec:
  "snd (get_employee numeric t X) = t \<and>
   (int64 X \<longrightarrow>
      ((\<exists>r\<in>set t. id' r = X) \<longrightarrow>
         (\<exists>r\<in>set t. id' r = X \<and> fst (get_employee numeric t X) = Inr (row_result numeric r))) \<and>
      (distinct (map id' t) \<longrightarrow>
         (\<forall>r\<in>set t. id' r = X \<longrightarrow> fst (get_employee numeric t X) = Inr (row_result numeric r))) \<and>
      (fst (get_employee numeric t X) = Inl (HTTPException 404 ''Employee not found'')
         \<longleftrightarrow> (\<forall>r\<in>set t. id' r \<noteq> X)) \<and>
      ((\<exists>e. fst (get_employee numeric t X) = Inl e) \<longleftrightarrow> (\<forall>r\<in>set t. id' r \<noteq> X))) \<and>
   (\<not> int64 X \<longrightarrow> fst (get_employee numeric t X) = Inl OverflowError)"
proof (cases "int64 X")
  case False
  then show ?thesis by (simp add: get_employee_def fetch_one_find)
next
  case True
  show ?thesis
  proof (cases "find (\<lambda>r. id' r = X) t")
    case None
    then have "\<forall>r\<in>set t. id' r \<noteq> X" by (simp add: find_id_None)
    then show ?thesis using None True by (simp add: get_employee_def fetch_one_find)
  next
    case (Some row)
    from find_id_Some [OF Some] have row: "row \<in> set t" "id' row = X" by simp_all
    have g: "get_employee numeric t X = (Inr (row_result numeric row), t)"
      using Some True by (simp add: get_employee_def fetch_one_find)
    have u: "fst (get_employee numeric t X) = Inr (row_result numeric r)"
      if "distinct (map id' t)" "r \<in> set t" "id' r = X" for r
      using find_id_distinct [OF that(1,2)] Some that(3) g by simp
    show ?thesis using row g u True by auto
  qed
qed

theorem get_employee_spec_witness:
  "get_employee sqlite_numeric two_rows 2 = (Inr (with_id ben 2), two_rows) \<and>
   get_employee sqlite_numeric two_rows 7 = (Inl (HTTPException 404 ''Employee not found''), two_rows) \<and>
   get_employee sqlite_numeric two_rows 9223372036854775808 = (Inl OverflowError, two_rows)"
proof -
  have d: "distinct (map id' two_rows)" by (simp add: two_rows_def id_with_id)
  have m: "with_id ben 2 \<in> set two_rows" by (simp add: two_rows_def)
  have n: "\<forall>r\<in>set two_rows. id' r \<noteq> 7" by (simp add: two_rows_def id_with_id)
  from get_employee_spec [of sqlite_numeric two_rows 2] d m
  have "fst (get_employee sqlite_numeric two_rows 2) = Inr (row_result sqlite_numeric (with_id ben 2))"
    "snd (get_employee sqlite_numeric two_rows 2) = two_rows"
    by (auto simp: id_with_id int64_examples)
  moreover from get_employee_spec [of sqlite_numeric two_rows 7] n
  have "fst (get_employee sqlite_numeric two_rows 7) = Inl (HTTPException 404 ''Employee not found'')"
     "snd (get_employee sqlite_numeric two_rows 7) = two_rows" by (simp_all add: int64_examples)
  moreover from get_employee_spec [of sqlite_numeric two_rows 9223372036854775808]
  have "fst (get_employee sqlite_numeric two_rows 9223372036854775808) = Inl OverflowError"
     "snd (get_employee sqlite_numeric two_rows 9223372036854775808) = two_rows"
    by (simp_all add: int64_examples)
  ultimately show ?thesis by (simp add: prod_eq_iff row_result_examples)
qed

subsection \<open>C6: listing with a branch filter and a limit\<close>

text \<open>
  C6, as stated: for every branch filter \<open>B\<close> and limit \<open>N\<close>, every record listed has the
  branch \<open>B\<close> and at most \<open>N\<close> records are listed. Three inputs break it. The filter
  \<open>""\<close> is false in \<open>if branch:\<close>, so no \<open>WHERE\<close> is added and rows of every branch are
  listed. A negative limit is passed to the engine as it is, and the rows it returns
  are more than \<open>N\<close>. A limit outside the 64-bit range makes the driver raise
  \<open>OverflowError\<close>, and nothing is listed.
\<close>

theorem list_branch_filter_counterexample:
  "fst (list_employees sqlite_numeric two_rows (Some []) None) = Inr [with_id ana 1, with_id ben 2] \<and>
   branch (with_id ben 2) = Some ''South'' \<and>
   fst (list_employees sqlite_numeric two_rows (Some ''North'') (Some (- 1))) = Inr [with_id ana 1] \<and>
   fst (list_employees sqlite_numeric two_rows (Some ''North'') (Some 9223372036854775808)) =
     Inl OverflowError"
  by (simp add: list_examples branch_examples)

lemma list_employees_filtered:
  assumes "B \<noteq> []"
  shows "list_employees numeric t (Some B) larg =
     (let N = (case larg of None \<Rightarrow> 100 | Some n \<Rightarrow> n)
      in if int64 N
         then Inr (map (row_result numeric)
                (if N < 0 then filter (\<lambda>r. branch r = Some B) t
                 else take (nat N) (filter (\<lambda>r. branch r = Some B) t)))
         else Inl OverflowError, t)"
  using assms by (simp add: list_employees_def fetch_all_def sql_limit_def Let_def)

text \<open>
  C6, amended: for every table, every non-empty branch filter \<open>B\<close> and every limit \<open>N\<close>
  in the signed 64-bit range (100 when the request gives none), the list operation
  returns a sequence and leaves the table as it was; every record returned has the
  branch \<open>B\<close>; the sequence is the first \<open>N\<close> rows whose branch is \<open>B\<close>, so at most \<open>N\<close>
  records, when \<open>N\<close> is not negative, and all the rows whose branch is \<open>B\<close> when \<open>N\<close> is
  negative.
\<close>

theorem list_branch_filter:
  assumes "B \<noteq> []" and "int64 N" and "larg = Some N \<or> (larg = None \<and> N = 100)"
  shows "list_employees numeric t (Some B) larg =
           (Inr (map (row_result numeric)
                  (if N < 0 then filter (\<lambda>r. branch r = Some B) t
                   else take (nat N) (filter (\<lambda>r. branch r = Some B) t))), t) \<and>
         (\<exists>rows. fst (list_employees numeric t (Some B) larg) = Inr rows \<and>
            (\<forall>r\<in>set rows. branch r = Some B) \<and>
            (0 \<le> N \<longrightarrow> int (length rows) \<le> N))"
proof -
  let ?rows = "map (row_result numeric)
                  (if N < 0 then filter (\<lambda>r. branch r = Some B) t
                   else take (nat N) (filter (\<lambda>r. branch r = Some B) t))"
  have n: "(case larg of None \<Rightarrow> 100 | Some n \<Rightarrow> n) = N" using assms(3) by auto
  have l: "list_employees numeric t (Some B) larg = (Inr ?rows, t)"
    using assms(2) by (simp add: list_employees_filtered [OF assms(1)] n)
  have b: "\<forall>r\<in>set ?rows. branch r = Some B"
    by (auto simp: branch_row_result dest: in_set_takeD)
  have c: "0 \<le> N \<longrightarrow> int (length ?rows) \<le> N" by auto
  show ?thesis using l b c by simp
qed

theorem list_branch_filter_witness:
  "list_employees sqlite_numeric (two_rows @ [with_id eve 3]) (Some ''North'') (Some 1) =
     (Inr [with_id ana 1], two_rows @ [with_id eve 3]) \<and>
   list_employees sqlite_numeric (two_rows @ [with_id eve 3]) (Some ''North'') None =
     (Inr [with_id ana 1, with_id eve 3], two_rows @ [with_id eve 3])"
proof -
  have h: "''North'' \<noteq> []" by simp
  have f: "filter (\<lambda>r. branch r = Some ''North'') (two_rows @ [with_id eve 3]) =
      [with_id ana 1, with_id eve 3]"
    by (simp add: two_rows_def branch_examples)
  have a: "list_employees sqlite_numeric (two_rows @ [with_id eve 3]) (Some ''North'') (Some 1) =
     (Inr [with_id ana 1], two_rows @ [with_id eve 3])"
    using list_branch_filter [OF h int64_examples(1), of "Some 1" sqlite_numeric "two_rows @ [with_id eve 3]"]
    unfolding f by (simp add: row_result_examples)
  have b: "list_employees sqlite_numeric (two_rows @ [with_id eve 3]) (Some ''North'') None =
     (Inr [with_id ana 1, with_id eve 3], two_rows @ [with_id eve 3])"
    using list_branch_filter [OF h int64_examples(5), of None sqlite_numeric "two_rows @ [with_id eve 3]"]
    unfolding f by (simp add: row_result_examples)
  show ?thesis using a b by simp
qed

subsection \<open>C7: delete\<close>

text \<open>
  C7, as stated: for every id \<open>X\<close> the delete returns the acknowledgement. The handler
  takes any integer as \<open>emp_id\<close>; for one outside the 64-bit range the driver raises
  \<open>OverflowError\<close> at the \<open>DELETE\<close>.
\<close>

theorem delete_overflow_example:
  "delete_employee two_rows 9223372036854775808 = (Inl OverflowError, two_rows)"
  by (simp add: delete_employee_def execute_delete_def int64_examples)

text \<open>
  C7, amended: for an id \<open>X\<close> in the signed 64-bit range, \<open>delete_employee\<close> leaves the
  table without any row of id \<open>X\<close> and returns the acknowledgement \<open>{deleted_id: X}\<close>,
  whether or not such a row was there; for an \<open>X\<close> outside that range it fails with the
  driver's uncaught \<open>OverflowError\<close> and leaves the table as it was. Called again with
  the same id on the table it left, it answers as it did the first time and changes
  nothing. It never raises an \<open>HTTPException\<close>, so it never signals not-found.
\<close>

theorem delete_acknowledges:
  "delete_employee t X =
     (if int64 X then (Inr \<lparr>deleted_id = X\<rparr>, filter (\<lambda>r. id' r \<noteq> X) t)
      else (Inl OverflowError, t)) \<and>
   delete_employee (snd (delete_employee t X)) X =
     (fst (delete_employee t X), snd (delete_employee t X)) \<and>
   (\<forall>code detail. fst (delete_employee t X) \<noteq> Inl (HTTPException code detail))"
  by (simp add: delete_employee_def execute_delete_def)

subsection \<open>C8: create\<close>

text \<open>
  C8, as stated: for every valid input record the create operation succeeds. It does
  not when the record carries an \<open>employee_no\<close> that a row already holds; here the
  record has the required fields and the \<open>employee_no\<close> of row 2.
\<close>

theorem create_taken_employee_no_example:
  "fst (create_employee two_rows (required_only\<lparr>employee_no := Some ''E2''\<rparr>)) = Inl IntegrityError"
  by (simp add: create_employee_def execute_insert_def employee_no_taken_def example_defs record_defs)

text \<open>
  C8, amended: for every input record whose \<open>employee_no\<close> is null (as in a record
  with the required fields only) or is held by no row, in a table whose ids are
  positive (as the engine's ids are), the create operation succeeds, appends one row
  with the fields of the input and the id the engine assigns, and returns that record;
  the id is positive and is the id of no earlier row.
\<close>

theorem create_succeeds:
  assumes "employee_no emp = None \<or> (\<forall>r\<in>set t. employee_no r \<noteq> employee_no emp)"
    and "\<forall>r\<in>set t. 0 < id' r"
  shows "create_employee t emp =
           (Inr (with_id emp (next_rowid t)), t @ [with_id emp (next_rowid t)]) \<and>
         0 < next_rowid t \<and> (\<forall>r\<in>set t. id' r \<noteq> next_rowid t) \<and>
         EmployeeIn.truncate (with_id emp (next_rowid t)) = emp \<and>
         id' (with_id emp (next_rowid t)) = next_rowid t"
proof -
  have "\<not> employee_no_taken t (employee_no emp)"
    using assms(1) by (auto simp: employee_no_taken_def split: option.splits)
  then have c: "create_employee t emp =
           (Inr (with_id emp (next_rowid t)), t @ [with_id emp (next_rowid t)])"
    by (simp add: create_employee_def execute_insert_def Let_def)
  have p: "0 < next_rowid t" using assms(2) by (rule next_rowid_positive)
  have f: "\<forall>r\<in>set t. id' r \<noteq> next_rowid t" using next_rowid_fresh [of _ t] by fastforce
  show ?thesis using c p f by (simp add: truncate_with_id id_with_id)
qed

theorem create_succeeds_witness:
  "create_employee [] required_only = (Inr (with_id required_only 1), [with_id required_only 1]) \<and>
   create_employee two_rows required_only =
     (Inr (with_id required_only 3), two_rows @ [with_id required_only 3])"
proof -
  have h1: "employee_no required_only = None \<or>
      (\<forall>r\<in>set t. employee_no r \<noteq> employee_no required_only)" for t :: table
    by (simp add: example_defs)
  have h2: "\<forall>r\<in>set []. 0 < id' r" by simp
  have h3: "\<forall>r\<in>set two_rows. 0 < id' r" by (simp add: example_defs record_defs)
  have n1: "next_rowid [] = 1" by (simp add: next_rowid_def)
  have n2: "next_rowid two_rows = 3" by (simp add: next_rowid_def example_defs record_defs)
  show ?thesis using create_succeeds [OF h1 h2] create_succeeds [OF h1 h3]
    by (simp add: n1 n2)
qed

subsection \<open>C9: listing with an empty branch filter\<close>

lemma list_empty_branch_example:
  "list_employees sqlite_numeric (two_rows @ [with_id eve 3]) (Some []) (Some 2) =
     (Inr [with_id ana 1, with_id ben 2], two_rows @ [with_id eve 3]) \<and>
   branch (with_id ana 1) = Some ''North'' \<and> branch (with_id ben 2) = Some ''South''"
  by (simp add: list_employees_def fetch_all_def sql_limit_def int64_def two_rows_def
      row_result_examples branch_examples)


subsection \<open>C10: update and delete leave the other rows alone\<close>

lemma filter_update_others:
  "filter (\<lambda>r. id' r \<noteq> X) (map (\<lambda>r. if id' r = X then set_values r emp else r) t) =
   filter (\<lambda>r. id' r \<noteq> X) t"
  by (induction t) (simp_all add: id_set_values)

text \<open>
  C10: for every id \<open>X\<close>, whether or not a row has it, the rows whose id is not \<open>X\<close> are
  the same rows, with the same values and in the same order, after \<open>update_employee\<close>
  and after \<open>delete_employee\<close> as before.
\<close>

theorem update_delete_frame:
  "filter (\<lambda>r. id' r \<noteq> X) (snd (update_employee numeric t X emp)) = filter (\<lambda>r. id' r \<noteq> X) t \<and>
   filter (\<lambda>r. id' r \<noteq> X) (snd (delete_employee t X)) = filter (\<lambda>r. id' r \<noteq> X) t"
proof -
  have u: "filter (\<lambda>r. id' r \<noteq> X) (snd (update_employee numeric t X emp)) = filter (\<lambda>r. id' r \<noteq> X) t"
  proof (cases "execute_update t X emp")
    case (Inl e)
    then show ?thesis by (simp add: update_employee_def)
  next
    case (Inr t')
    then have t': "t' = map (\<lambda>r. if id' r = X then set_values r emp else r) t"
      by (auto simp: execute_update_def split: if_splits)
    have "snd (update_employee numeric t X emp) = t'"
      using Inr by (simp add: update_employee_def split: sum.splits option.splits)
    then show ?thesis by (simp add: t' filter_update_others)
  qed
  have d: "filter (\<lambda>r. id' r \<noteq> X) (snd (delete_employee t X)) = filter (\<lambda>r. id' r \<noteq> X) t"
    by (simp add: delete_employee_def execute_delete_def)
  show ?thesis using u d by simp
qed

end
